theory Spec2Isabelle
  imports Main "HOL-Library.Word" "HOL-Library.Signed_Division"
begin

unbundle bit_operations_syntax

section \<open>The WIB v2 frame (WIB2Frame.hpp)\<close>

text \<open>
  The class \<open>WIB2Frame\<close> has three data members: a \<open>Header\<close> of bit-fields, the array
  \<open>word_t adc_words[112]\<close> and a \<open>Trailer\<close> of bit-fields, where \<open>word_t\<close> is
  \<open>uint32_t\<close>. A bit-field of declared width \<open>w\<close> holds a \<open>w\<close>-bit unsigned value, so
  each one is a word of that width. The array is a list; the frames the accessors
  are meant for have exactly 112 payload words.
\<close>

type_synonym word_t = "32 word"

record Header =
  crate :: "8 word"
  frame_version :: "4 word"
  slot :: "3 word"
  fiber :: "1 word"
  femb_valid :: "2 word"
  wib_code_1 :: "14 word"
  wib_code_2 :: "32 word"
  timestamp_1 :: "32 word"
  timestamp_2 :: "32 word"

record Trailer =
  crc20 :: "20 word"
  flex_word_12 :: "12 word"
  eof :: "8 word"
  flex_word_24 :: "24 word"

record WIB2Frame =
  header :: Header
  adc_words :: "word_t list"
  trailer :: Trailer

subsection \<open>Outcomes of an accessor call\<close>

text \<open>
  \<open>get_adc\<close> can end in three ways: it returns a \<open>uint16_t\<close>, it throws
  \<open>std::out_of_range\<close>, or one of its two \<open>assert\<close>s fails and the program aborts.
  The two failures are the values of \<open>error\<close>. (Compiled with \<open>NDEBUG\<close> the
  assertions vanish, and where one would have failed the next statement reads
  \<open>adc_words\<close> outside its 112 elements, which C++ leaves undefined; the model gives
  such a read no value either.) \<open>get_adc\<close> and its wrappers are not
  declared \<open>const\<close>, so the frame is threaded through the call: an outcome carries
  the result, the indices of \<open>adc_words\<close> that were read (in the order of the reads)
  and the frame as it is when the call ends.
\<close>

datatype error = OutOfRange | AssertionFailed

record 'a outcome =
  result :: 'a
  payload_reads :: "nat list"
  frame_after :: WIB2Frame

subsection \<open>get_adc\<close>

text \<open>
  The locals of \<open>get_adc\<close>, as functions of the index. The C++ \<open>int\<close> operators
  \<open>/\<close> and \<open>%\<close> truncate towards zero: they are \<open>sdiv\<close> and \<open>smod\<close>. No product
  overflows for an index that has passed the range check (\<open>14 * 255 = 3570\<close>).
  \<open>BITS_PER_WORD\<close> is \<open>8*sizeof(word_t)\<close>, and a \<open>uint32_t\<close> has 4 bytes.
\<close>

definition BITS_PER_ADC :: int where
  "BITS_PER_ADC = 14"

definition BITS_PER_WORD :: int where
  "BITS_PER_WORD = 8 * 4"

definition word_index :: "int \<Rightarrow> int" where
  "word_index i = (BITS_PER_ADC * i) sdiv BITS_PER_WORD"

definition first_bit_position :: "int \<Rightarrow> int" where
  "first_bit_position i = (BITS_PER_ADC * i) smod BITS_PER_WORD"

definition bits_from_first_word :: "int \<Rightarrow> int" where
  "bits_from_first_word i = min BITS_PER_ADC (BITS_PER_WORD - first_bit_position i)"

text \<open>
  The body, statement by statement. \<open>uint16_t adc = adc_words[word_index] >> first_bit_position\<close>
  truncates the shifted 32-bit word to 16 bits. In \<open>adc |= adc_words[word_index+1] << bits_from_first_word\<close>
  the left operand is promoted to 32 bits, the shift and the OR are 32-bit operations, and
  the assignment truncates to 16 bits again. \<open>adc & 0x3FFFu\<close> is a 32-bit AND whose value
  is converted to the \<open>uint16_t\<close> return type. The guard of the second read compares
  \<open>bits_from_first_word\<close> with \<open>BITS_PER_WORD\<close>, as the source does.
\<close>

definition get_adc_run :: "WIB2Frame \<Rightarrow> int \<Rightarrow> (error + 16 word) outcome" where
  "get_adc_run f i =
    (if i < 0 \<or> i > 255 then
       \<lparr>result = Inl OutOfRange, payload_reads = [], frame_after = f\<rparr>
     else if \<not> word_index i < 112 then
       \<lparr>result = Inl AssertionFailed, payload_reads = [], frame_after = f\<rparr>
     else
       let adc = (ucast (drop_bit (nat (first_bit_position i))
                           (adc_words f ! nat (word_index i))) :: 16 word)
       in if bits_from_first_word i < BITS_PER_WORD then
            if \<not> word_index i + 1 < 112 then
              \<lparr>result = Inl AssertionFailed, payload_reads = [nat (word_index i)],
               frame_after = f\<rparr>
            else
              let adc2 = (ucast ((ucast adc :: 32 word) OR
                            push_bit (nat (bits_from_first_word i))
                              (adc_words f ! nat (word_index i + 1))) :: 16 word)
              in \<lparr>result = Inr (ucast ((ucast adc2 :: 32 word) AND 0x3FFF)),
                  payload_reads = [nat (word_index i), nat (word_index i + 1)],
                  frame_after = f\<rparr>
          else
            \<lparr>result = Inr (ucast ((ucast adc :: 32 word) AND 0x3FFF)),
             payload_reads = [nat (word_index i)], frame_after = f\<rparr>)"

definition get_adc :: "WIB2Frame \<Rightarrow> int \<Rightarrow> error + 16 word" where
  "get_adc f i = result (get_adc_run f i)"

subsection \<open>The channel wrappers and the timestamp\<close>

text \<open>
  The wrappers compute a flat index in \<open>int\<close> arithmetic and call \<open>get_adc\<close>. A C++
  \<open>int\<close> has 32 bits here. Where a product or sum leaves the range of \<open>int\<close> the
  language leaves the result undefined; the code that g++ and clang++ generate
  computes it in two's complement, and the model takes that value: \<open>wrap_int\<close> is
  applied to the result of every operation, and changes nothing where the result is
  in range.
\<close>

definition wrap_int :: "int \<Rightarrow> int" where
  "wrap_int x = (x + 2 ^ 31) mod 2 ^ 32 - 2 ^ 31"

definition get_u_run :: "WIB2Frame \<Rightarrow> int \<Rightarrow> int \<Rightarrow> (error + 16 word) outcome" where
  "get_u_run f femb i = get_adc_run f (wrap_int (wrap_int (128 * femb) + i))"

definition get_v_run :: "WIB2Frame \<Rightarrow> int \<Rightarrow> int \<Rightarrow> (error + 16 word) outcome" where
  "get_v_run f femb i =
     get_adc_run f (wrap_int (wrap_int (wrap_int (128 * femb) + 40) + i))"

definition get_x_run :: "WIB2Frame \<Rightarrow> int \<Rightarrow> int \<Rightarrow> (error + 16 word) outcome" where
  "get_x_run f femb i =
     get_adc_run f (wrap_int (wrap_int (wrap_int (wrap_int (128 * femb) + 40) + 40) + i))"

definition get_u :: "WIB2Frame \<Rightarrow> int \<Rightarrow> int \<Rightarrow> error + 16 word" where
  "get_u f femb i = result (get_u_run f femb i)"

definition get_v :: "WIB2Frame \<Rightarrow> int \<Rightarrow> int \<Rightarrow> error + 16 word" where
  "get_v f femb i = result (get_v_run f femb i)"

definition get_x :: "WIB2Frame \<Rightarrow> int \<Rightarrow> int \<Rightarrow> error + 16 word" where
  "get_x f femb i = result (get_x_run f femb i)"

text \<open>
  \<open>timestamp\<close> is a \<open>const\<close> member: \<open>header.timestamp_1 | ((uint64_t)header.timestamp_2 << 32)\<close>,
  with both operands widened to 64 bits. It has no throwing statement and no assertion.
\<close>

definition timestamp :: "WIB2Frame \<Rightarrow> 64 word" where
  "timestamp f =
     (ucast (timestamp_1 (header f)) :: 64 word) OR
     push_bit 32 (ucast (timestamp_2 (header f)) :: 64 word)"

definition timestamp_run :: "WIB2Frame \<Rightarrow> (64 word) outcome" where
  "timestamp_run f = \<lparr>result = timestamp f, payload_reads = [], frame_after = f\<rparr>"

subsection \<open>Packing samples into a payload\<close>

text \<open>
  The packing that \<open>get_adc\<close> is meant to invert is not part of the source; it is
  written here from the format's description: sample \<open>i\<close> occupies the bits
  \<open>14 * i\<close> to \<open>14 * i + 13\<close> of the payload region, bit \<open>n\<close> of the region being
  bit \<open>n mod 32\<close> of payload word \<open>n div 32\<close>.
\<close>

definition payload_bit :: "14 word list \<Rightarrow> nat \<Rightarrow> bool" where
  "payload_bit vs n = bit (vs ! (n div 14)) (n mod 14)"

definition pack_word :: "14 word list \<Rightarrow> nat \<Rightarrow> word_t" where
  "pack_word vs k = horner_sum of_bool 2 (map (\<lambda>j. payload_bit vs (32 * k + j)) [0..<32])"

definition pack_adc :: "14 word list \<Rightarrow> word_t list" where
  "pack_adc vs = map (pack_word vs) [0..<112]"

subsection \<open>Placement of the bit-fields\<close>

text \<open>
  C++ leaves the allocation of bit-fields to the implementation. The rule used here is
  the one of the System V and Itanium ABIs that g++ and clang++ implement: bit-fields of
  type \<open>uint32_t\<close> are allocated in declaration order from the least significant bit of
  a 32-bit unit, each at the next free bit, and a bit-field that would cross the end of
  its unit starts the next unit instead. The declarations are the source's, a name and
  a width each. A placement is the name, the first bit (counted from the start of the
  struct) and the width.
\<close>

type_synonym bitfield = "string \<times> nat"

definition Header_decl :: "bitfield list" where
  "Header_decl = [(''crate'', 8), (''frame_version'', 4), (''slot'', 3), (''fiber'', 1),
     (''femb_valid'', 2), (''wib_code_1'', 14), (''wib_code_2'', 32),
     (''timestamp_1'', 32), (''timestamp_2'', 32)]"

definition Trailer_decl :: "bitfield list" where
  "Trailer_decl = [(''crc20'', 20), (''flex_word_12'', 12), (''eof'', 8),
     (''flex_word_24'', 24)]"

fun place_bitfields :: "nat \<Rightarrow> bitfield list \<Rightarrow> (string \<times> nat \<times> nat) list" where
  "place_bitfields pos [] = []"
| "place_bitfields pos ((name, width) # rest) =
     (let start = (if pos mod 32 + width \<le> 32 then pos else (pos div 32 + 1) * 32)
      in (name, start, width) # place_bitfields (start + width) rest)"

definition sizeof_words :: "bitfield list \<Rightarrow> nat" where
  "sizeof_words decl =
     (case rev (place_bitfields 0 decl) of
        [] \<Rightarrow> 0
      | (name, start, width) # earlier \<Rightarrow> (start + width + 31) div 32)"

text \<open>
  The members of the frame in declaration order: \<open>header\<close>, \<open>adc_words[112]\<close>,
  \<open>trailer\<close>. All three are aligned to 32 bits, so each starts where the previous
  one ends. Offsets and sizes are in 32-bit words.
\<close>

definition adc_words_offset :: nat where
  "adc_words_offset = sizeof_words Header_decl"

definition trailer_offset :: nat where
  "trailer_offset = adc_words_offset + 112"

definition frame_words :: nat where
  "frame_words = trailer_offset + sizeof_words Trailer_decl"

definition frame_bytes :: nat where
  "frame_bytes = 4 * frame_words"

text \<open>
  Where a trailer field lies in the frame: the index of its word in the frame, and its
  lowest and highest bit within that word.
\<close>

definition trailer_field :: "string \<Rightarrow> (nat \<times> nat \<times> nat) option" where
  "trailer_field name =
     (case find (\<lambda>(n, start, width). n = name) (place_bitfields 0 Trailer_decl) of
        None \<Rightarrow> None
      | Some (n, start, width) \<Rightarrow>
          Some (trailer_offset + start div 32, start mod 32, start mod 32 + width - 1))"

subsection \<open>Concrete frames\<close>

definition zero_header :: Header where
  "zero_header = \<lparr>crate = 0, frame_version = 0, slot = 0, fiber = 0, femb_valid = 0,
     wib_code_1 = 0, wib_code_2 = 0, timestamp_1 = 0, timestamp_2 = 0\<rparr>"

definition zero_trailer :: Trailer where
  "zero_trailer = \<lparr>crc20 = 0, flex_word_12 = 0, eof = 0, flex_word_24 = 0\<rparr>"

definition zero_frame :: WIB2Frame where
  "zero_frame = \<lparr>header = zero_header, adc_words = replicate 112 0, trailer = zero_trailer\<rparr>"

definition ts_frame :: WIB2Frame where
  "ts_frame = zero_frame\<lparr>header := zero_header\<lparr>timestamp_1 := 0xFFFFFFFF, timestamp_2 := 1\<rparr>\<rparr>"

definition ones_after_first :: WIB2Frame where
  "ones_after_first = zero_frame\<lparr>adc_words := 0 # replicate 111 0xFFFFFFFF\<rparr>"

section \<open>Facts about the locals of get_adc\<close>

lemma word_index_nonneg: "0 \<le> i \<Longrightarrow> word_index i = (14 * i) div 32"
  by (simp add: word_index_def BITS_PER_ADC_def BITS_PER_WORD_def signed_divide_int_def sgn_if)

lemma first_bit_position_nonneg: "0 \<le> i \<Longrightarrow> first_bit_position i = (14 * i) mod 32"
  by (simp add: first_bit_position_def BITS_PER_ADC_def BITS_PER_WORD_def
      signed_modulo_int_def sgn_if)

lemma bits_from_first_word_less_word: "bits_from_first_word i < BITS_PER_WORD"
  by (simp add: bits_from_first_word_def BITS_PER_ADC_def BITS_PER_WORD_def)

lemma first_assert_holds: "0 \<le> i \<Longrightarrow> i \<le> 255 \<Longrightarrow> word_index i < 112"
  by (simp add: word_index_nonneg)

lemma second_index_in_range_iff:
  "0 \<le> i \<Longrightarrow> i \<le> 255 \<Longrightarrow> word_index i + 1 < 112 \<longleftrightarrow> i \<le> 253"
  by (simp add: word_index_nonneg) arith

lemma bits_from_first_word_full:
  "0 \<le> i \<Longrightarrow> first_bit_position i \<le> 18 \<longleftrightarrow> bits_from_first_word i = 14"
  by (auto simp add: bits_from_first_word_def BITS_PER_ADC_def BITS_PER_WORD_def min_def)

lemma mask_0x3FFF: "(0x3FFF :: 32 word) = mask 14"
  by (simp add: mask_eq_exp_minus_1)

text \<open>
  When the shift of the second word is by 14 or more, truncation and mask remove every
  bit that word contributes.
\<close>

lemma second_word_masked_out:
  fixes adc :: "16 word" and w :: "32 word"
  assumes "14 \<le> b"
  shows "(ucast ((ucast (ucast ((ucast adc :: 32 word) OR push_bit b w) :: 16 word) :: 32 word)
            AND 0x3FFF) :: 16 word)
         = ucast ((ucast adc :: 32 word) AND 0x3FFF)"
  unfolding mask_0x3FFF
  by (rule bit_word_eqI) (use assms in \<open>auto simp add: bit_simps\<close>)

text \<open>The outcome of a call with an index that has passed the range check.\<close>

lemma get_adc_run_upto_253:
  assumes "0 \<le> i" "i \<le> 253"
  shows "get_adc_run f i =
    \<lparr>result = Inr (ucast ((ucast (ucast ((ucast (ucast (drop_bit (nat (first_bit_position i))
                (adc_words f ! nat (word_index i))) :: 16 word) :: 32 word) OR
              push_bit (nat (bits_from_first_word i)) (adc_words f ! nat (word_index i + 1)))
              :: 16 word) :: 32 word) AND 0x3FFF)),
     payload_reads = [nat (word_index i), nat (word_index i + 1)],
     frame_after = f\<rparr>"
proof -
  have "word_index i < 112" using assms by (simp add: first_assert_holds)
  moreover have "word_index i + 1 < 112" using assms by (simp add: second_index_in_range_iff)
  ultimately show ?thesis
    using assms by (simp add: get_adc_run_def Let_def bits_from_first_word_less_word)
qed

lemma get_adc_run_from_254:
  assumes "254 \<le> i" "i \<le> 255"
  shows "get_adc_run f i =
    \<lparr>result = Inl AssertionFailed, payload_reads = [111], frame_after = f\<rparr>"
proof -
  have "i = 254 \<or> i = 255" using assms by arith
  then show ?thesis
    by (auto simp add: get_adc_run_def Let_def word_index_nonneg bits_from_first_word_less_word)
qed

lemma get_adc_run_out_of_range:
  assumes "i < 0 \<or> i > 255"
  shows "get_adc_run f i = \<lparr>result = Inl OutOfRange, payload_reads = [], frame_after = f\<rparr>"
  using assms by (simp add: get_adc_run_def)

lemma index_cases:
  fixes i :: int
  obtains "i < 0 \<or> i > 255" | "0 \<le> i" "i \<le> 253" | "254 \<le> i" "i \<le> 255"
  by linarith

section \<open>The timestamp\<close>

lemma or_push_bit_nat:
  fixes x y :: nat
  assumes "x < 2 ^ n"
  shows "x OR push_bit n y = x + y * 2 ^ n"
proof -
  have "x AND push_bit n y = 0"
  proof (rule bit_eqI)
    fix m
    have "bit x m \<Longrightarrow> m < n"
      using assms by (metis bit_take_bit_iff take_bit_nat_eq_self)
    then show "bit (x AND push_bit n y) m = bit (0::nat) m"
      by (auto simp add: bit_and_iff bit_push_bit_iff)
  qed
  then show ?thesis
    by (simp add: disjunctive_add_eq_or [symmetric] push_bit_eq_mult)
qed

lemma unat_timestamp:
  "unat (timestamp f) =
     unat (timestamp_1 (header f)) + unat (timestamp_2 (header f)) * 2 ^ 32"
proof -
  let ?lo = "timestamp_1 (header f)" and ?hi = "timestamp_2 (header f)"
  have lo: "unat ?lo < 2 ^ 32"
    using unsigned_less [of ?lo] by simp
  have hi: "unat ?hi < 2 ^ 32"
    using unsigned_less [of ?hi] by simp
  have a: "unat (ucast ?lo :: 64 word) = unat ?lo"
    using lo by (simp add: unsigned_ucast_eq take_bit_nat_eq_self_iff)
  have c: "take_bit LENGTH(64) (unat ?hi) = unat ?hi"
    by (rule take_bit_nat_eq_self) (use hi in simp)
  have d: "take_bit LENGTH(64) (push_bit 32 (unat ?hi)) = push_bit 32 (unat ?hi)"
    by (rule take_bit_nat_eq_self) (use hi in \<open>simp add: push_bit_eq_mult\<close>)
  have b: "unat (push_bit 32 (ucast ?hi :: 64 word)) = push_bit 32 (unat ?hi)"
    by (simp only: unsigned_push_bit_eq unsigned_ucast_eq c d)
  show ?thesis
    unfolding timestamp_def unsigned_or_eq a b
    using lo by (rule or_push_bit_nat)
qed

text \<open>
  C8. For every frame, \<open>timestamp()\<close> is the unsigned 64-bit value
  \<open>timestamp_1 + timestamp_2 * 2^32\<close>, with \<open>timestamp_1\<close> the low-order half. The call
  has a value for every frame (the model's result is a 64-bit word, not a sum with an
  error), reads no payload word and leaves the frame as it was. With
  \<open>timestamp_1 = 0xFFFFFFFF\<close> and \<open>timestamp_2 = 1\<close> the value is \<open>0x1FFFFFFFF\<close>.
\<close>

theorem timestamp_value:
  "unat (timestamp f) =
     unat (timestamp_1 (header f)) + unat (timestamp_2 (header f)) * 2 ^ 32
   \<and> result (timestamp_run f) = timestamp f
   \<and> frame_after (timestamp_run f) = f
   \<and> (timestamp_1 (header f) = 0xFFFFFFFF \<and> timestamp_2 (header f) = 1
        \<longrightarrow> timestamp f = 0x1FFFFFFFF)"
  by (simp add: unat_timestamp timestamp_run_def) (simp add: timestamp_def)

theorem timestamp_value_witness:
  "timestamp_1 (header ts_frame) = 0xFFFFFFFF \<and> timestamp_2 (header ts_frame) = 1
   \<and> timestamp ts_frame = 0x1FFFFFFFF
   \<and> unat (timestamp ts_frame) = 4294967295 + 1 * 2 ^ 32"
  using timestamp_value [of ts_frame]
  by (simp add: ts_frame_def zero_frame_def zero_header_def)

section \<open>The range check of get_adc\<close>

text \<open>
  \<open>get_adc(i)\<close> ends with the out-of-range error exactly when \<open>i < 0\<close> or
  \<open>i > 255\<close>. The error is the result of the call itself; in that case no payload
  word has been read and the frame is as it was.
\<close>

lemma get_adc_out_of_range_iff:
  "(result (get_adc_run f i) = Inl OutOfRange \<longleftrightarrow> i < 0 \<or> i > 255)
   \<and> (i < 0 \<or> i > 255 \<longrightarrow>
        payload_reads (get_adc_run f i) = [] \<and> frame_after (get_adc_run f i) = f)"
proof (cases i rule: index_cases)
  case 1
  then show ?thesis by (simp add: get_adc_run_out_of_range)
next
  case 2
  then show ?thesis by (simp add: get_adc_run_upto_253)
next
  case 3
  then show ?thesis by (simp add: get_adc_run_from_254)
qed

lemma get_adc_out_of_range_iff_example:
  "(256::int) > 255
   \<and> result (get_adc_run zero_frame 256) = Inl OutOfRange
   \<and> payload_reads (get_adc_run zero_frame 256) = []
   \<and> frame_after (get_adc_run zero_frame 256) = zero_frame
   \<and> result (get_adc_run zero_frame 0) \<noteq> Inl OutOfRange"
  using get_adc_out_of_range_iff [of zero_frame 256] get_adc_out_of_range_iff [of zero_frame 0]
  by simp

text \<open>
  C5. The range of the index is not the only condition for \<open>get_adc\<close> to succeed:
  \<open>i = 254\<close> lies in \<open>[0,255]\<close> and raises no out-of-range error, yet the call
  returns no value, because the second assertion fails (the defect of C2; the same at
  255). What the claim says of the out-of-range error itself holds: it is raised
  exactly for \<open>i < 0\<close> or \<open>i > 255\<close>, before any read and with the frame unchanged
  (lemma \<open>get_adc_out_of_range_iff\<close>).
\<close>

theorem in_range_index_without_value:
  "(0 :: int) \<le> 254 \<and> (254 :: int) \<le> 255
   \<and> get_adc f 254 \<noteq> Inl OutOfRange
   \<and> (\<forall>v. get_adc f 254 \<noteq> Inr v)
   \<and> frame_after (get_adc_run f 254) = f"
  by (simp add: get_adc_def get_adc_run_from_254)

section \<open>The second payload word\<close>

text \<open>
  C2. For an index in \<open>[0,255]\<close> the first assertion, \<open>word_index < 112\<close>, holds
  (lemma \<open>first_assert_holds\<close>). The second does not hold for every such index: the
  guard \<open>bits_from_first_word < BITS_PER_WORD\<close> is true for every index, so the branch
  that reads \<open>adc_words[word_index+1]\<close> is always taken, and at \<open>i = 254\<close> the word
  index is 111, \<open>word_index + 1\<close> is 112 and \<open>assert(word_index+1 < 112)\<close> fails after
  word 111 has been read. The claim that both assertions hold on \<open>[0,255]\<close> is false
  of the code at this index (and at 255, lemma \<open>get_adc_run_from_254\<close>).
\<close>

theorem second_assert_fails_at_254:
  "word_index 254 = 111
   \<and> bits_from_first_word 254 < BITS_PER_WORD
   \<and> \<not> word_index 254 + 1 < 112
   \<and> get_adc_run f 254 =
       \<lparr>result = Inl AssertionFailed, payload_reads = [111], frame_after = f\<rparr>"
  by (simp add: get_adc_run_from_254 word_index_nonneg bits_from_first_word_less_word)

text \<open>
  C3. At \<open>i = 0\<close> the field lies in word 0 alone: \<open>first_bit_position\<close> is 0 and
  \<open>bits_from_first_word\<close> is 14, which is not less than 14. The code reads
  \<open>adc_words[1]\<close> all the same, because its guard compares with \<open>BITS_PER_WORD\<close>. So
  the second word is not read only when the field straddles.
\<close>

theorem second_word_read_without_straddle:
  "first_bit_position 0 = 0
   \<and> bits_from_first_word 0 = BITS_PER_ADC
   \<and> \<not> bits_from_first_word 0 < 14
   \<and> payload_reads (get_adc_run f 0) = [0, 1]"
  by (simp add: get_adc_run_upto_253 word_index_nonneg first_bit_position_nonneg
      bits_from_first_word_def BITS_PER_ADC_def BITS_PER_WORD_def)

text \<open>The second word is read, or its read is attempted, for every index in range.\<close>

lemma second_word_always_wanted:
  assumes "0 \<le> i" "i \<le> 255"
  shows "payload_reads (get_adc_run f i) = [nat (word_index i), nat (word_index i + 1)]
         \<or> result (get_adc_run f i) = Inl AssertionFailed"
proof (cases i rule: index_cases)
  case 1
  with assms show ?thesis by simp
next
  case 2
  then show ?thesis by (simp add: get_adc_run_upto_253)
next
  case 3
  then show ?thesis by (simp add: get_adc_run_from_254)
qed

text \<open>
  C9. For an index \<open>i\<close> in \<open>[0,255]\<close> whose field does not straddle
  (\<open>first_bit_position i \<le> 18\<close>), two frames that agree on payload word
  \<open>word_index i\<close> give the same result of \<open>get_adc(i)\<close>: truncation to 16 bits and the
  mask \<open>0x3FFF\<close> remove whatever the following word contributes.
\<close>

theorem get_adc_single_word_dependence:
  assumes "0 \<le> i" and "i \<le> 255"
    and "first_bit_position i \<le> 18"
    and "adc_words f ! nat (word_index i) = adc_words g ! nat (word_index i)"
  shows "get_adc f i = get_adc g i"
proof (cases i rule: index_cases)
  case 1
  with assms show ?thesis by simp
next
  case 2
  have b: "nat (bits_from_first_word i) = 14"
    using assms(1,3) by (simp add: bits_from_first_word_full)
  have "result (get_adc_run h i) =
      Inr (ucast ((ucast (ucast (drop_bit (nat (first_bit_position i))
              (adc_words h ! nat (word_index i))) :: 16 word) :: 32 word) AND 0x3FFF))" for h
    using 2 by (simp only: get_adc_run_upto_253 b second_word_masked_out [OF order_refl]
        outcome.simps)
  then show ?thesis
    using assms(4) by (simp add: get_adc_def)
next
  case 3
  then show ?thesis by (simp add: get_adc_def get_adc_run_from_254)
qed

theorem get_adc_single_word_dependence_witness:
  "adc_words zero_frame ! 1 \<noteq> adc_words ones_after_first ! 1
   \<and> adc_words zero_frame ! 0 = adc_words ones_after_first ! 0
   \<and> get_adc zero_frame 0 = get_adc ones_after_first 0"
  using get_adc_single_word_dependence [of 0 zero_frame ones_after_first]
  by (simp add: word_index_nonneg first_bit_position_nonneg zero_frame_def
      ones_after_first_def)

section \<open>The value returned\<close>

lemma and_0x3FFF_bound: "unat (ucast ((w :: 32 word) AND 0x3FFF) :: 16 word) \<le> 16383"
proof -
  have "w AND 0x3FFF \<le> 0x3FFF"
    by (rule word_and_le1)
  then have "unat (w AND 0x3FFF) \<le> 16383"
    by (simp add: word_le_nat_alt)
  moreover have "unat (ucast (w AND 0x3FFF) :: 16 word) \<le> unat (w AND 0x3FFF)"
    by (simp add: unsigned_ucast_eq take_bit_nat_less_eq_self)
  ultimately show ?thesis by linarith
qed

text \<open>For the indices 0 to 253 the call returns, and the value is below \<open>2^14\<close>.\<close>

lemma get_adc_value_upto_253:
  assumes "0 \<le> i" "i \<le> 253"
  shows "\<exists>v. get_adc f i = Inr v \<and> unat v \<le> 16383"
  using assms by (simp add: get_adc_def get_adc_run_upto_253 and_0x3FFF_bound)

text \<open>
  C7. At \<open>i = 255\<close>, an index in \<open>[0,255]\<close>, \<open>get_adc\<close> returns no value: the
  second assertion fails (the defect of C2). The bound of the claim holds for the
  indices at which the call returns (lemma \<open>get_adc_value_upto_253\<close>).
\<close>

theorem get_adc_255_no_value:
  "get_adc f 255 = Inl AssertionFailed \<and> (\<forall>v. get_adc f 255 \<noteq> Inr v)"
  by (simp add: get_adc_def get_adc_run_from_254)

section \<open>The channel wrappers\<close>

lemma wrap_int_in_range:
  "- (2 ^ 31) \<le> x \<Longrightarrow> x < 2 ^ 31 \<Longrightarrow> wrap_int x = x"
  by (simp add: wrap_int_def)

lemma wrap_int_add_left: "wrap_int (wrap_int a + b) = wrap_int (a + b)"
proof -
  have "(wrap_int a + b + 2 ^ 31) mod 2 ^ 32 = ((a + 2 ^ 31) mod 2 ^ 32 + b) mod 2 ^ 32"
    by (simp add: wrap_int_def)
  also have "\<dots> = (a + 2 ^ 31 + b) mod 2 ^ 32"
    by (rule mod_add_left_eq)
  also have "\<dots> = (a + b + 2 ^ 31) mod 2 ^ 32"
    by (simp add: ac_simps)
  finally show ?thesis
    by (simp only: wrap_int_def [of "wrap_int a + b"] wrap_int_def [of "a + b"])
qed

text \<open>Each wrapper calls \<open>get_adc\<close> with the flat index, reduced to the range of \<open>int\<close>.\<close>

lemma wrappers_flat_index:
  "get_u_run f femb i = get_adc_run f (wrap_int (128 * femb + i))"
  "get_v_run f femb i = get_adc_run f (wrap_int (128 * femb + 40 + i))"
  "get_x_run f femb i = get_adc_run f (wrap_int (128 * femb + 80 + i))"
proof -
  have "128 * femb + 40 + 40 + i = 128 * femb + 80 + i"
    by simp
  then show "get_x_run f femb i = get_adc_run f (wrap_int (128 * femb + 80 + i))"
    by (simp only: get_x_run_def wrap_int_add_left)
qed (simp_all only: get_u_run_def get_v_run_def wrap_int_add_left)

text \<open>Where the flat index is in \<open>[0,255]\<close>, the call is \<open>get_adc\<close> at that index.\<close>

lemma wrappers_translate:
  "0 \<le> 128 * femb + i \<Longrightarrow> 128 * femb + i \<le> 255 \<Longrightarrow>
     get_u_run f femb i = get_adc_run f (128 * femb + i)
     \<and> get_u f femb i = get_adc f (128 * femb + i)"
  "0 \<le> 128 * femb + 40 + i \<Longrightarrow> 128 * femb + 40 + i \<le> 255 \<Longrightarrow>
     get_v_run f femb i = get_adc_run f (128 * femb + 40 + i)
     \<and> get_v f femb i = get_adc f (128 * femb + 40 + i)"
  "0 \<le> 128 * femb + 80 + i \<Longrightarrow> 128 * femb + 80 + i \<le> 255 \<Longrightarrow>
     get_x_run f femb i = get_adc_run f (128 * femb + 80 + i)
     \<and> get_x f femb i = get_adc f (128 * femb + 80 + i)"
  by (simp_all add: wrappers_flat_index wrap_int_in_range get_u_def get_v_def get_x_def
      get_adc_def)

lemma wrappers_out_of_range:
  "get_u f femb i = Inl OutOfRange \<longleftrightarrow>
     wrap_int (128 * femb + i) < 0 \<or> wrap_int (128 * femb + i) > 255"
  "get_v f femb i = Inl OutOfRange \<longleftrightarrow>
     wrap_int (128 * femb + 40 + i) < 0 \<or> wrap_int (128 * femb + 40 + i) > 255"
  "get_x f femb i = Inl OutOfRange \<longleftrightarrow>
     wrap_int (128 * femb + 80 + i) < 0 \<or> wrap_int (128 * femb + 80 + i) > 255"
proof -
  have *: "result (get_adc_run f k) = Inl OutOfRange \<longleftrightarrow> k < 0 \<or> k > 255" for k
    by (cases k rule: index_cases)
      (simp_all add: get_adc_run_out_of_range get_adc_run_upto_253 get_adc_run_from_254)
  show "get_u f femb i = Inl OutOfRange \<longleftrightarrow>
      wrap_int (128 * femb + i) < 0 \<or> wrap_int (128 * femb + i) > 255"
    by (simp only: get_u_def wrappers_flat_index *)
  show "get_v f femb i = Inl OutOfRange \<longleftrightarrow>
      wrap_int (128 * femb + 40 + i) < 0 \<or> wrap_int (128 * femb + 40 + i) > 255"
    by (simp only: get_v_def wrappers_flat_index *)
  show "get_x f femb i = Inl OutOfRange \<longleftrightarrow>
      wrap_int (128 * femb + 80 + i) < 0 \<or> wrap_int (128 * femb + 80 + i) > 255"
    by (simp only: get_x_def wrappers_flat_index *)
qed

text \<open>
  A wrapper called with an index beyond its group reaches the next group: the call is
  the one the neighbouring wrapper makes.
\<close>

lemma wrappers_neighbours:
  "get_u_run f femb (40 + j) = get_v_run f femb j"
  "get_v_run f femb (40 + j) = get_x_run f femb j"
  "get_x_run f femb (48 + j) = get_u_run f (femb + 1) j"
proof -
  have "128 * femb + (40 + j) = 128 * femb + 40 + j"
    by simp
  then show "get_u_run f femb (40 + j) = get_v_run f femb j"
    by (simp only: wrappers_flat_index)
  have "128 * femb + 40 + (40 + j) = 128 * femb + 80 + j"
    by simp
  then show "get_v_run f femb (40 + j) = get_x_run f femb j"
    by (simp only: wrappers_flat_index)
  have "128 * femb + 80 + (48 + j) = 128 * (femb + 1) + j"
    by simp
  then show "get_x_run f femb (48 + j) = get_u_run f (femb + 1) j"
    by (simp only: wrappers_flat_index)
qed

text \<open>
  With arguments whose flat index leaves the range of \<open>int\<close> the wrapped index can
  fall into \<open>[0,255]\<close>: \<open>128 * 33554432\<close> is \<open>2^32\<close>, so \<open>get_u(33554432, 5)\<close> is
  \<open>get_adc(5)\<close>.
\<close>

lemma get_u_wrapped_argument: "get_u_run f 33554432 5 = get_adc_run f 5"
  by (simp add: get_u_run_def wrap_int_def)

text \<open>
  C6. The wrappers translate the index and validate nothing (lemmas
  \<open>wrappers_flat_index\<close>, \<open>wrappers_translate\<close>, \<open>wrappers_out_of_range\<close>,
  \<open>wrappers_neighbours\<close>). What the
  claim says of an out-of-range \<open>i\<close> whose flat index is still in \<open>[0,255]\<close>, that the
  call returns the neighbouring channel's sample without error, fails where the flat
  index is 254 or 255: \<open>get_u(1, 126)\<close> has flat index 254 and ends in the failed
  assertion of \<open>get_adc\<close> (the defect of C2), as does \<open>get_x(1, 46)\<close>, the call for that
  channel with arguments in range.
\<close>

theorem get_u_flat_254_no_value:
  "128 * 1 + 126 = (254 :: int)
   \<and> get_u f 1 126 = Inl AssertionFailed
   \<and> get_u f 1 126 = get_x f 1 46"
  by (simp add: get_u_def get_x_def wrappers_flat_index wrap_int_def get_adc_run_from_254)

section \<open>No accessor changes the frame\<close>

text \<open>
  C10. After a call of \<open>get_adc\<close>, \<open>get_u\<close>, \<open>get_v\<close>, \<open>get_x\<close> or \<open>timestamp\<close>,
  with any arguments and however the call ends, the frame (header, payload words and
  trailer) is the frame before the call.
\<close>

theorem accessors_leave_frame_unchanged:
  "frame_after (get_adc_run f i) = f
   \<and> frame_after (get_u_run f femb j) = f
   \<and> frame_after (get_v_run f femb j) = f
   \<and> frame_after (get_x_run f femb j) = f
   \<and> frame_after (timestamp_run f) = f"
proof -
  have "frame_after (get_adc_run f k) = f" for k
    by (cases k rule: index_cases)
      (simp_all add: get_adc_run_out_of_range get_adc_run_upto_253 get_adc_run_from_254)
  then show ?thesis
    by (simp add: get_u_run_def get_v_run_def get_x_run_def timestamp_run_def)
qed

section \<open>The size of the frame and the place of the trailer fields\<close>

lemma place_Header:
  "place_bitfields 0 Header_decl =
     [(''crate'', 0, 8), (''frame_version'', 8, 4), (''slot'', 12, 3), (''fiber'', 15, 1),
      (''femb_valid'', 16, 2), (''wib_code_1'', 18, 14), (''wib_code_2'', 32, 32),
      (''timestamp_1'', 64, 32), (''timestamp_2'', 96, 32)]"
  by code_simp

lemma place_Trailer:
  "place_bitfields 0 Trailer_decl =
     [(''crc20'', 0, 20), (''flex_word_12'', 20, 12), (''eof'', 32, 8),
      (''flex_word_24'', 40, 24)]"
  by code_simp

lemma sizeof_Header: "sizeof_words Header_decl = 4"
  by (simp add: sizeof_words_def place_Header)

lemma sizeof_Trailer: "sizeof_words Trailer_decl = 2"
  by (simp add: sizeof_words_def place_Trailer)

text \<open>
  C4, as stated, does not hold of the declarations: the trailer's four bit-fields have
  20 + 12 + 8 + 24 = 64 bits and fill two words, not three. \<open>eof\<close> and
  \<open>flex_word_24\<close> are declared one after the other with 8 + 24 = 32 bits, so they
  share a word, and the frame has 118 words.
\<close>

theorem frame_layout_not_119_words:
  "\<not> (frame_words = 119 \<and> frame_bytes = 476 \<and> sizeof_words Trailer_decl = 3
      \<and> trailer_field ''eof'' = Some (117, 0, 7)
      \<and> trailer_field ''flex_word_24'' = Some (118, 0, 23))"
  by (simp add: sizeof_Trailer)

text \<open>
  C4, amended. The frame occupies 118 32-bit words (472 bytes): a 4-word header, the
  112-word payload in the words 4 to 115, and a 2-word trailer. \<open>crc20\<close> and
  \<open>flex_word_12\<close> are the bits 0 to 19 and 20 to 31 of word 116; the \<open>eof\<close> marker is
  the bits 0 to 7 and \<open>flex_word_24\<close> the bits 8 to 31 of the same word 117.
\<close>

theorem frame_layout_118_words:
  "sizeof_words Header_decl = 4
   \<and> adc_words_offset = 4 \<and> trailer_offset = 116
   \<and> sizeof_words Trailer_decl = 2
   \<and> frame_words = 118 \<and> frame_bytes = 472
   \<and> trailer_field ''crc20'' = Some (116, 0, 19)
   \<and> trailer_field ''flex_word_12'' = Some (116, 20, 31)
   \<and> trailer_field ''eof'' = Some (117, 0, 7)
   \<and> trailer_field ''flex_word_24'' = Some (117, 8, 31)"
  by (simp add: frame_bytes_def frame_words_def trailer_offset_def adc_words_offset_def
      sizeof_Header sizeof_Trailer trailer_field_def place_Trailer)

section \<open>Reading back a packed payload\<close>

lemma bit_pack_word:
  "bit (pack_word vs k) j \<longleftrightarrow> j < 32 \<and> payload_bit vs (32 * k + j)"
  by (auto simp add: pack_word_def bit_horner_sum_bit_word_iff)

lemma nth_pack_adc: "k < 112 \<Longrightarrow> pack_adc vs ! k = pack_word vs k"
  by (simp add: pack_adc_def)

lemma payload_bit_sample: "m < 14 \<Longrightarrow> payload_bit vs (14 * n + m) = bit (vs ! n) m"
  by (simp add: payload_bit_def)

lemma extract_packed:
  fixes n k p :: nat
  assumes split: "32 * k + p = 14 * n" and p: "p < 32"
  shows "(ucast ((ucast (ucast ((ucast (ucast (drop_bit p (pack_word vs k)) :: 16 word)
              :: 32 word) OR push_bit (min 14 (32 - p)) (pack_word vs (k + 1)))
            :: 16 word) :: 32 word) AND mask 14) :: 16 word)
         = ucast (vs ! n)"
proof (rule bit_word_eqI)
  fix m :: nat
  assume "m < LENGTH(16)"
  then have m16: "m < 16" by simp
  show "bit (ucast ((ucast (ucast ((ucast (ucast (drop_bit p (pack_word vs k)) :: 16 word)
              :: 32 word) OR push_bit (min 14 (32 - p)) (pack_word vs (k + 1)))
            :: 16 word) :: 32 word) AND mask 14) :: 16 word) m
        = bit (ucast (vs ! n) :: 16 word) m"
  proof (cases "m < 14")
    case False
    then show ?thesis
      by (auto simp add: bit_simps dest: bit_imp_le_length)
  next
    case True
    show ?thesis
    proof (cases "p + m < 32")
      case low: True
      have eq: "32 * k + (p + m) = 14 * n + m" using split by arith
      have "bit (pack_word vs k) (p + m) = payload_bit vs (14 * n + m)"
        using low by (simp only: bit_pack_word eq simp_thms)
      then have "bit (pack_word vs k) (p + m) = bit (vs ! n) m"
        using True by (simp only: payload_bit_sample)
      moreover have "\<not> min 14 (32 - p) \<le> m" using low True by arith
      ultimately show ?thesis
        using True m16 by (simp add: bit_simps ac_simps)
    next
      case high: False
      then have b: "min 14 (32 - p) = 32 - p" "32 - p \<le> m" "m - (32 - p) < 32"
        using True by arith+
      have eq: "32 * (k + 1) + (m - (32 - p)) = 14 * n + m" using split high p by arith
      have "bit (pack_word vs (k + 1)) (m - (32 - p)) = payload_bit vs (14 * n + m)"
        using b(3) by (simp only: bit_pack_word eq simp_thms)
      then have "bit (pack_word vs (k + 1)) (m - (32 - p)) = bit (vs ! n) m"
        using True by (simp only: payload_bit_sample)
      moreover have "\<not> bit (pack_word vs k) (p + m)"
        using high by (simp add: bit_pack_word)
      ultimately show ?thesis
        using True m16 b by (simp add: bit_simps ac_simps)
    qed
  qed
qed


text \<open>
  For the indices 0 to 253 \<open>get_adc\<close> returns the sample that was packed, whether
  the field lies in one word or straddles two.
\<close>

lemma get_adc_round_trip_upto_253:
  assumes "0 \<le> i" and "i \<le> 253" and "length vs = 256"
  shows "get_adc (f\<lparr>adc_words := pack_adc vs\<rparr>) i = Inr (ucast (vs ! nat i))"
proof -
  define n where "n = nat i"
  define k where "k = (14 * n) div 32"
  define p where "p = (14 * n) mod 32"
  define F where "F = f\<lparr>adc_words := pack_adc vs\<rparr>"
  have i: "i = int n" using assms(1) by (simp add: n_def)
  have n: "n \<le> 253" using assms(2) by (simp add: n_def)
  have split: "32 * k + p = 14 * n"
    unfolding k_def p_def by (rule mult_div_mod_eq)
  have p32: "p < 32"
    unfolding p_def by (rule mod_less_divisor) simp
  have k110: "k + 1 < 112"
    unfolding k_def using n by arith
  have wi: "word_index i = int k"
    unfolding i k_def by (simp add: word_index_nonneg zdiv_int)
  have fb: "first_bit_position i = int p"
    unfolding i p_def by (simp add: first_bit_position_nonneg zmod_int)
  have bf: "bits_from_first_word i = int (min 14 (32 - p))"
    unfolding bits_from_first_word_def fb BITS_PER_ADC_def BITS_PER_WORD_def
    using p32 by (auto simp add: min_def)
  have F: "adc_words F = pack_adc vs"
    by (simp add: F_def)
  have "nat (word_index i) = k" and "k < 112"
    using k110 by (simp_all add: wi)
  then have w0: "adc_words F ! nat (word_index i) = pack_word vs k"
    by (simp only: F nth_pack_adc)
  have "nat (word_index i + 1) = k + 1"
    by (simp add: wi)
  then have w1: "adc_words F ! nat (word_index i + 1) = pack_word vs (k + 1)"
    using k110 by (simp only: F nth_pack_adc)
  have np: "nat (first_bit_position i) = p"
    by (simp add: fb)
  have nb: "nat (bits_from_first_word i) = min 14 (32 - p)"
    by (simp only: bf nat_int)
  show ?thesis
    by (simp only: get_adc_def get_adc_run_upto_253 [OF assms(1,2)] w0 w1 np nb
        outcome.simps mask_0x3FFF extract_packed [OF split p32]
        F_def [symmetric] n_def [symmetric])
qed

text \<open>
  C1. The round trip does not hold at every index in \<open>[0,255]\<close>: on any frame
  whose payload is packed from samples \<open>vs\<close>, \<open>get_adc(255)\<close> ends in the failed
  second assertion (the defect of C2) and does not return \<open>vs ! 255\<close>; the same
  holds at 254. It holds at the indices 0 to 253
  (lemma \<open>get_adc_round_trip_upto_253\<close>).
\<close>

theorem round_trip_fails_at_255:
  "get_adc (f\<lparr>adc_words := pack_adc vs\<rparr>) 255 = Inl AssertionFailed
   \<and> get_adc (f\<lparr>adc_words := pack_adc vs\<rparr>) 255 \<noteq> Inr (ucast (vs ! 255))"
  by (simp add: get_adc_def get_adc_run_from_254)

end
